theory Spec2Isabelle
  imports Complex_Main
begin

section \<open>The bill record and the request body\<close>

text \<open>
  The server (\<^verbatim>\<open>bill-mgmt-server/server.js\<close>) keeps one table, \<^verbatim>\<open>bills\<close>, and
  answers every route by sending one SQL statement to PostgreSQL. The model keeps the
  table as a list of rows, the sequence \<^verbatim>\<open>bills_billid_seq\<close> as the next value it
  hands out, and a route handler as a function from the store and the request to the
  response and the store afterwards. The handlers modelled are the four that write and
  \<^verbatim>\<open>GET /bills/:billId\<close>.

  A request body is read by destructuring, so a field that is not sent is
  \<^verbatim>\<open>undefined\<close>; the driver sends \<^verbatim>\<open>undefined\<close> and \<^verbatim>\<open>null\<close> alike as SQL
  \<^verbatim>\<open>NULL\<close>, and the two are equal under \<^verbatim>\<open>==\<close> and both fail \<^verbatim>\<open>> 0\<close>. Both are
  \<open>None\<close> here. A field that is sent carries a value of its column's type: amounts are
  JSON numbers (finite, so rationals), flags are booleans, dates are calendar dates (the
  date the text denotes; the store strips the time of day). Bodies whose fields have
  another JavaScript type than their column are not covered, with one exception: for
  \<^verbatim>\<open>POST /addbill\<close> an amount or a date may also be the empty text, which is what a
  form field that was left empty sends.
\<close>

datatype date = Date nat nat nat

text \<open>The nine fields of a request body. The types of the amounts and of the dates are
  parameters: \<open>fields\<close> is the body whose amounts and dates are of their column's type
  or absent, and so is what a row holds.\<close>

record ('n, 'd) body_fields =
  billfrom :: "string option"
  billType :: "string option"
  amountDue :: 'n
  dueDate :: 'd
  isPaid :: "bool option"
  paidInFull :: "bool option"
  amountPaid :: 'n
  datePaid :: 'd
  paidBy :: "string option"

type_synonym fields = "(rat option, date option) body_fields"

record bill = "(rat option, date option) body_fields" +
  billid :: int

text \<open>The row that an insert builds from its nine parameters and the key.\<close>

definition row :: "int \<Rightarrow> fields \<Rightarrow> bill" where
  "row n b =
     \<lparr>billfrom = billfrom b, billType = billType b, amountDue = amountDue b,
      dueDate = dueDate b, isPaid = isPaid b, paidInFull = paidInFull b,
      amountPaid = amountPaid b, datePaid = datePaid b, paidBy = paidBy b, billid = n\<rparr>"

subsection \<open>The two JavaScript comparisons the handlers use\<close>

text \<open>\<^verbatim>\<open>amountPaid > 0\<close>: \<^verbatim>\<open>undefined\<close> becomes NaN and \<^verbatim>\<open>null\<close> becomes 0, neither is
  greater than 0.\<close>

definition gt0 :: "rat option \<Rightarrow> bool" where
  "gt0 x = (case x of None \<Rightarrow> False | Some v \<Rightarrow> 0 < v)"

text \<open>\<^verbatim>\<open>amountPaid == amountDue\<close>: numbers compare by value, \<^verbatim>\<open>undefined\<close> and
  \<^verbatim>\<open>null\<close> equal each other and nothing else.\<close>

definition loose_eq :: "rat option \<Rightarrow> rat option \<Rightarrow> bool" where
  "loose_eq x y = (x = y)"

section \<open>Reading the id out of the path\<close>

text \<open>
  \<^verbatim>\<open>req.params.billId\<close> is the text of the path segment, a JavaScript string: a
  sequence of UTF-16 code units, here natural numbers. Three handlers pass it through
  \<^verbatim>\<open>parseInt\<close>, \<^verbatim>\<open>GET /bills/:billId\<close> through \<^verbatim>\<open>Number\<close>. Both follow the
  ECMAScript definitions: the white space they skip is the language's whole set, and the
  mathematical value they read is rounded to the nearest double, ties to even. A result
  \<open>None\<close> is a value that is not a finite number: NaN, or an infinity.
\<close>

type_synonym jstring = "nat list"

definition unit :: "char \<Rightarrow> nat" where
  "unit c = of_char c"

definition units :: "string \<Rightarrow> jstring" where
  "units s = map unit s"

text \<open>White space and line terminators: TAB, LF, VT, FF, CR, SP, NBSP, the other space
  separators of Unicode, LS, PS and the byte order mark.\<close>

definition StrWhiteSpaceChar :: "nat \<Rightarrow> bool" where
  "StrWhiteSpaceChar c =
     (c = 0x09 \<or> c = 0x0A \<or> c = 0x0B \<or> c = 0x0C \<or> c = 0x0D \<or> c = 0x20 \<or> c = 0xA0
      \<or> c = 0x1680 \<or> (0x2000 \<le> c \<and> c \<le> 0x200A) \<or> c = 0x2028 \<or> c = 0x2029
      \<or> c = 0x202F \<or> c = 0x205F \<or> c = 0x3000 \<or> c = 0xFEFF)"

definition digit_of :: "nat \<Rightarrow> nat option" where
  "digit_of c =
     (if 48 \<le> c \<and> c \<le> 57 then Some (c - 48)
      else if 97 \<le> c \<and> c \<le> 122 then Some (c - 87)
      else if 65 \<le> c \<and> c \<le> 90 then Some (c - 55)
      else None)"

definition is_digit :: "nat \<Rightarrow> nat \<Rightarrow> bool" where
  "is_digit R c = (case digit_of c of None \<Rightarrow> False | Some v \<Rightarrow> v < R)"

definition digits_value :: "nat \<Rightarrow> jstring \<Rightarrow> int" where
  "digits_value R s =
     foldl (\<lambda>a c. case digit_of c of None \<Rightarrow> a | Some v \<Rightarrow> a * int R + int v) 0 s"

subsection \<open>Rounding to a double\<close>

text \<open>
  The double nearest to a rational: with \<open>2^e \<le> |q| < 2^(e+1)\<close> (\<open>e\<close> is read off the
  number of bits of the integer part of \<open>|q|\<close>, or of \<open>1 / |q|\<close>) the doubles around
  \<open>q\<close> are the multiples of \<open>2^(e-52)\<close>, of \<open>2^(-1074)\<close> below the normal range; \<open>q\<close>
  goes to the nearest multiple, to the even one of two equally near, and to an infinity
  when that multiple reaches \<open>2^1024\<close>.
\<close>

function bit_length :: "int \<Rightarrow> int" where
  "bit_length n = (if n \<le> 0 then 0 else 1 + bit_length (n div 2))"
  by auto
termination
  by (relation "measure nat") auto

declare bit_length.simps [simp del]

definition pow2 :: "int \<Rightarrow> rat" where
  "pow2 e = (if 0 \<le> e then 2 ^ nat e else 1 / 2 ^ nat (- e))"

definition binary_exponent :: "rat \<Rightarrow> int" where
  "binary_exponent a =
     (if 1 \<le> a then bit_length \<lfloor>a\<rfloor> - 1
      else let k = bit_length \<lfloor>1 / a\<rfloor> - 1
           in if pow2 (- k) \<le> a then - k else - k - 1)"

definition round_half_even :: "rat \<Rightarrow> int" where
  "round_half_even m =
     (let f = \<lfloor>m\<rfloor>; d = m - of_int f
      in if d < 1 / 2 then f else if 1 / 2 < d then f + 1 else if even f then f else f + 1)"

definition to_double :: "rat \<Rightarrow> rat option" where
  "to_double q =
     (if q = 0 then Some 0
      else let a = \<bar>q\<bar>;
               u = pow2 (max (binary_exponent a) (- 1022) - 52);
               r = of_int (round_half_even (a / u)) * u
           in if pow2 1024 \<le> r then None else Some (if q < 0 then - r else r))"

subsection \<open>\<^verbatim>\<open>parseInt\<close>\<close>

fun strip_sign :: "jstring \<Rightarrow> int \<times> jstring" where
  "strip_sign [] = (1, [])"
| "strip_sign (c # s) =
     (if c = unit CHR ''-'' then (- 1, s) else if c = unit CHR ''+'' then (1, s)
      else (1, c # s))"

fun strip_hex_prefix :: "jstring \<Rightarrow> nat \<times> jstring" where
  "strip_hex_prefix (c0 # c1 # s) =
     (if c0 = unit CHR ''0'' \<and> (c1 = unit CHR ''x'' \<or> c1 = unit CHR ''X'') then (16, s)
      else (10, c0 # c1 # s))"
| "strip_hex_prefix s = (10, s)"

text \<open>The value of the digits \<open>Z\<close> in the radix \<open>R\<close>, as the double \<^verbatim>\<open>parseInt\<close>
  returns; a finite double of an integer is an integer.\<close>

definition digits_number :: "nat \<Rightarrow> jstring \<Rightarrow> int option" where
  "digits_number R Z =
     (if Z = [] then None
      else map_option (\<lambda>v. \<lfloor>v\<rfloor>) (to_double (of_int (digits_value R Z))))"

definition parseInt :: "jstring \<Rightarrow> int option" where
  "parseInt inputString =
     (case strip_sign (dropWhile StrWhiteSpaceChar inputString) of (sign, S) \<Rightarrow>
      case strip_hex_prefix S of (R, S') \<Rightarrow>
        map_option (\<lambda>v. sign * v) (digits_number R (takeWhile (is_digit R) S')))"

subsection \<open>\<^verbatim>\<open>Number\<close>\<close>

definition all_digits :: "nat \<Rightarrow> jstring \<Rightarrow> bool" where
  "all_digits R s = (s \<noteq> [] \<and> list_all (is_digit R) s)"

definition trim :: "jstring \<Rightarrow> jstring" where
  "trim s = rev (dropWhile StrWhiteSpaceChar (rev (dropWhile StrWhiteSpaceChar s)))"

text \<open>The exponent part of a decimal literal; an empty rest is the exponent 0.\<close>

definition exponent_part :: "jstring \<Rightarrow> int option" where
  "exponent_part s =
     (case s of
        [] \<Rightarrow> Some 0
      | c # t \<Rightarrow>
          if c = unit CHR ''e'' \<or> c = unit CHR ''E'' then
            (case strip_sign t of (sg, ds) \<Rightarrow>
               if all_digits 10 ds then Some (sg * digits_value 10 ds) else None)
          else None)"

definition fraction_part :: "jstring \<Rightarrow> jstring \<times> jstring" where
  "fraction_part s =
     (case s of
        [] \<Rightarrow> ([], [])
      | c # t \<Rightarrow>
          if c = unit CHR ''.'' then (takeWhile (is_digit 10) t, dropWhile (is_digit 10) t)
          else ([], s))"

definition unsigned_decimal :: "jstring \<Rightarrow> rat option" where
  "unsigned_decimal s =
     (let ip = takeWhile (is_digit 10) s in
      case fraction_part (dropWhile (is_digit 10) s) of (fp, rest) \<Rightarrow>
        if ip = [] \<and> fp = [] then None
        else (case exponent_part rest of
                None \<Rightarrow> None
              | Some e \<Rightarrow>
                  Some ((of_int (digits_value 10 ip)
                          + of_int (digits_value 10 fp) / 10 ^ length fp)
                        * (if 0 \<le> e then 10 ^ nat e else 1 / 10 ^ nat (- e)))))"

definition decimal_literal :: "jstring \<Rightarrow> rat option" where
  "decimal_literal s =
     (case strip_sign s of (sg, u) \<Rightarrow>
        if u = units ''Infinity'' then None
        else map_option (\<lambda>v. of_int sg * v) (unsigned_decimal u))"

fun radix_prefix :: "jstring \<Rightarrow> (nat \<times> jstring) option" where
  "radix_prefix (c0 # c1 # s) =
     (if c0 \<noteq> unit CHR ''0'' then None
      else if c1 = unit CHR ''x'' \<or> c1 = unit CHR ''X'' then Some (16, s)
      else if c1 = unit CHR ''o'' \<or> c1 = unit CHR ''O'' then Some (8, s)
      else if c1 = unit CHR ''b'' \<or> c1 = unit CHR ''B'' then Some (2, s)
      else None)"
| "radix_prefix s = None"

text \<open>The mathematical value of the text as a numeric literal: \<open>None\<close> where the text
  is no literal (NaN) or is a signed \<^verbatim>\<open>Infinity\<close>.\<close>

definition literal_value :: "jstring \<Rightarrow> rat option" where
  "literal_value str =
     (let s = trim str in
      if s = [] then Some 0
      else (case radix_prefix s of
              Some (R, ds) \<Rightarrow>
                if all_digits R ds then Some (of_int (digits_value R ds)) else None
            | None \<Rightarrow> decimal_literal s))"

text \<open>\<^verbatim>\<open>Number(text)\<close>: the literal's value as a double.\<close>

definition js_Number :: "jstring \<Rightarrow> rat option" where
  "js_Number str = (case literal_value str of None \<Rightarrow> None | Some q \<Rightarrow> to_double q)"

section \<open>The store\<close>

text \<open>
  Modelled from the spec: the table \<^verbatim>\<open>bills\<close>, whose definition
  (\<^verbatim>\<open>db-ddl/bills-table-definition.sql\<close>) is not among the sources. The columns are
  those of the data model and of the README's column list, \<^verbatim>\<open>billid\<close> is the integer
  primary key filled from \<^verbatim>\<open>bills_billid_seq\<close>, and no other column carries a
  constraint. The sequence is the one of \<^verbatim>\<open>db-ddl/bills_billid_seq-ddl.sql\<close>: it starts
  at 1, steps by 1 and stops at 2000000 without cycling; \<open>bills_billid_seq\<close> is the value
  the next \<^verbatim>\<open>nextval\<close> returns.

  The store itself (PostgreSQL behind the \<^verbatim>\<open>pg\<close> connection pool) is the external
  collaborator of the server. Each statement is modelled by what it does to the rows; a
  lost connection is not modelled.
\<close>

record db =
  bills :: "bill list"
  bills_billid_seq :: nat

definition empty_db :: db where
  "empty_db = \<lparr>bills = [], bills_billid_seq = 1\<rparr>"

datatype pg_error =
    NullQuery
  | InvalidInteger
  | InvalidNumber
  | InvalidDate
  | UniqueViolation
  | SequenceLimit

text \<open>
  \<open>NullQuery\<close>: the driver refuses a statement that is \<^verbatim>\<open>null\<close> before anything is
  sent to the database. \<open>InvalidInteger\<close>: the text of a parameter compared with
  \<^verbatim>\<open>billid\<close> is not an integer of the column's 32-bit range (the text \<^verbatim>\<open>NaN\<close>, a
  fraction, a value out of range). \<open>InvalidNumber\<close> and \<open>InvalidDate\<close>: the text of a
  parameter for a \<^verbatim>\<open>double precision\<close> or a \<^verbatim>\<open>date\<close> column is not a number or not a
  date. \<open>UniqueViolation\<close>: the primary key.
  \<open>SequenceLimit\<close>: \<^verbatim>\<open>nextval\<close> beyond the sequence's maximum.
\<close>

definition int4 :: "int \<Rightarrow> bool" where
  "int4 n = (- 2147483648 \<le> n \<and> n \<le> 2147483647)"

definition int_param :: "int option \<Rightarrow> pg_error + int" where
  "int_param v =
     (case v of
        None \<Rightarrow> Inl InvalidInteger
      | Some n \<Rightarrow> if int4 n then Inr n else Inl InvalidInteger)"

definition num_param :: "rat option \<Rightarrow> pg_error + int" where
  "num_param v =
     (case v of
        None \<Rightarrow> Inl InvalidInteger
      | Some q \<Rightarrow> if q = of_int \<lfloor>q\<rfloor> then int_param (Some \<lfloor>q\<rfloor>) else Inl InvalidInteger)"

definition nextval :: "db \<Rightarrow> pg_error + int \<times> db" where
  "nextval d =
     (if 2000000 < bills_billid_seq d then Inl SequenceLimit
      else Inr (int (bills_billid_seq d), d\<lparr>bills_billid_seq := bills_billid_seq d + 1\<rparr>))"

text \<open>\<^verbatim>\<open>SELECT ... FROM bills WHERE billid=$1\<close>\<close>

definition select_where :: "db \<Rightarrow> rat option \<Rightarrow> pg_error + bill list" where
  "select_where d p =
     (case num_param p of
        Inl e \<Rightarrow> Inl e
      | Inr n \<Rightarrow> Inr (filter (\<lambda>r. billid r = n) (bills d)))"

text \<open>\<^verbatim>\<open>INSERT INTO bills(...) VALUES($1,...,$9) RETURNING *\<close>. The value taken from
  the sequence is used up also when the insert fails on the key.\<close>

definition insert_returning :: "db \<Rightarrow> fields \<Rightarrow> (pg_error + bill) \<times> db" where
  "insert_returning d b =
     (case nextval d of
        Inl e \<Rightarrow> (Inl e, d)
      | Inr (n, d1) \<Rightarrow>
          if n \<in> billid ` set (bills d1) then (Inl UniqueViolation, d1)
          else (Inr (row n b), d1\<lparr>bills := bills d1 @ [row n b]\<rparr>))"

text \<open>The two update statements of \<^verbatim>\<open>/paybill\<close> differ in the literals they write
  to \<^verbatim>\<open>"isPaid"\<close> and \<^verbatim>\<open>"paidInFull"\<close>; so do the three of \<^verbatim>\<open>/updatebill\<close>.\<close>

datatype pay_sql = PayUpdate bool bool

datatype update_sql = BillUpdate bool bool

definition pay_row :: "bool \<Rightarrow> bool \<Rightarrow> rat option \<Rightarrow> date option \<Rightarrow> string option \<Rightarrow> bill \<Rightarrow> bill" where
  "pay_row p f ap dp pb r =
     r\<lparr>isPaid := Some p, paidInFull := Some f, amountPaid := ap, datePaid := dp, paidBy := pb\<rparr>"

definition update_row :: "bool \<Rightarrow> bool \<Rightarrow> fields \<Rightarrow> bill \<Rightarrow> bill" where
  "update_row p f b r =
     r\<lparr>billfrom := billfrom b, billType := billType b, amountDue := amountDue b,
       dueDate := dueDate b, isPaid := Some p, paidInFull := Some f,
       amountPaid := amountPaid b, datePaid := datePaid b, paidBy := paidBy b\<rparr>"

definition update_where :: "(bill \<Rightarrow> bill) \<Rightarrow> int \<Rightarrow> db \<Rightarrow> db" where
  "update_where f n d = d\<lparr>bills := map (\<lambda>r. if billid r = n then f r else r) (bills d)\<rparr>"

text \<open>\<^verbatim>\<open>pool.query(sql, [amountPaid, datePaid, paidBy, billNum], ...)\<close> of
  \<^verbatim>\<open>/paybill\<close>. The answer is the error or the number of rows the update touched.\<close>

definition query_pay ::
  "db \<Rightarrow> pay_sql option \<Rightarrow> rat option \<Rightarrow> date option \<Rightarrow> string option \<Rightarrow> int option
     \<Rightarrow> (pg_error + nat) \<times> db" where
  "query_pay d sql ap dp pb billNum =
     (case sql of
        None \<Rightarrow> (Inl NullQuery, d)
      | Some (PayUpdate p f) \<Rightarrow>
          (case int_param billNum of
             Inl e \<Rightarrow> (Inl e, d)
           | Inr n \<Rightarrow>
               (Inr (length (filter (\<lambda>r. billid r = n) (bills d))),
                update_where (pay_row p f ap dp pb) n d)))"

text \<open>\<^verbatim>\<open>pool.query(sql, [billfrom, ..., paidBy, billNum], ...)\<close> of \<^verbatim>\<open>/updatebill\<close>.\<close>

definition query_update :: "db \<Rightarrow> update_sql \<Rightarrow> fields \<Rightarrow> int option \<Rightarrow> (pg_error + nat) \<times> db" where
  "query_update d sql b billNum =
     (case sql of
        BillUpdate p f \<Rightarrow>
          (case int_param billNum of
             Inl e \<Rightarrow> (Inl e, d)
           | Inr n \<Rightarrow>
               (Inr (length (filter (\<lambda>r. billid r = n) (bills d))),
                update_where (update_row p f b) n d)))"

text \<open>\<^verbatim>\<open>DELETE FROM bills WHERE billid=$1\<close>\<close>

definition query_delete :: "db \<Rightarrow> int option \<Rightarrow> (pg_error + nat) \<times> db" where
  "query_delete d billNum =
     (case int_param billNum of
        Inl e \<Rightarrow> (Inl e, d)
      | Inr n \<Rightarrow>
          (Inr (length (filter (\<lambda>r. billid r = n) (bills d))),
           d\<lparr>bills := filter (\<lambda>r. billid r \<noteq> n) (bills d)\<rparr>))"

section \<open>The route handlers\<close>

text \<open>
  What a handler sends back: \<open>JsonErr\<close> is \<^verbatim>\<open>res.json(err)\<close>; the others are the
  success answers, status 200 or 201. The three confirmations carry \<^verbatim>\<open>billNum\<close>, which
  their text prints.
\<close>

datatype response =
    JsonErr pg_error
  | Json200_row "bill option"
  | Json201 bill
  | PayConfirmation "int option"
  | UpdateConfirmation "int option"
  | DeleteConfirmation "int option"

text \<open>\<^verbatim>\<open>GET /bills/:billId\<close>; \<^verbatim>\<open>result.rows[0]\<close> of an empty result is
  \<^verbatim>\<open>undefined\<close>, here \<open>None\<close>.\<close>

definition get_bill :: "db \<Rightarrow> jstring \<Rightarrow> response" where
  "get_bill d billId =
     (let billNum = js_Number billId in
      case select_where d billNum of
        Inl err \<Rightarrow> JsonErr err
      | Inr rows \<Rightarrow> Json200_row (case rows of [] \<Rightarrow> None | r # _ \<Rightarrow> Some r))"

text \<open>\<^verbatim>\<open>POST /addbill\<close> on a body of column-typed fields: the nine fields go to the
  insert as they came.\<close>

definition addbill :: "db \<Rightarrow> fields \<Rightarrow> response \<times> db" where
  "addbill d body =
     (case insert_returning d body of
        (Inl err, d') \<Rightarrow> (JsonErr err, d')
      | (Inr r, d') \<Rightarrow> (Json201 r, d'))"

text \<open>
  \<^verbatim>\<open>POST /addbill\<close> on a body in which an amount or a date may also be the empty text.
  The handler has no check of its own and hands the nine fields to \<^verbatim>\<open>pool.query\<close>. The
  store converts the parameters in their order before it runs the statement: the empty
  text is no \<^verbatim>\<open>double precision\<close> and no \<^verbatim>\<open>date\<close>, the statement is not run, and the
  sequence is not touched. A body whose parameters convert is the column-typed body
  above.
\<close>

datatype 'a sent = Absent | EmptyText | Sent 'a

type_synonym sent_fields = "(rat sent, date sent) body_fields"

definition bind_number :: "rat sent \<Rightarrow> pg_error + rat option" where
  "bind_number v =
     (case v of Absent \<Rightarrow> Inr None | EmptyText \<Rightarrow> Inl InvalidNumber | Sent q \<Rightarrow> Inr (Some q))"

definition bind_date :: "date sent \<Rightarrow> pg_error + date option" where
  "bind_date v =
     (case v of Absent \<Rightarrow> Inr None | EmptyText \<Rightarrow> Inl InvalidDate | Sent t \<Rightarrow> Inr (Some t))"

definition bind_params :: "sent_fields \<Rightarrow> pg_error + fields" where
  "bind_params b =
     (case bind_number (amountDue b) of
        Inl e \<Rightarrow> Inl e
      | Inr due \<Rightarrow>
     (case bind_date (dueDate b) of
        Inl e \<Rightarrow> Inl e
      | Inr dd \<Rightarrow>
     (case bind_number (amountPaid b) of
        Inl e \<Rightarrow> Inl e
      | Inr paid \<Rightarrow>
     (case bind_date (datePaid b) of
        Inl e \<Rightarrow> Inl e
      | Inr dp \<Rightarrow>
          Inr \<lparr>billfrom = billfrom b, billType = billType b, amountDue = due, dueDate = dd,
               isPaid = isPaid b, paidInFull = paidInFull b, amountPaid = paid,
               datePaid = dp, paidBy = paidBy b\<rparr>))))"

definition addbill_sent :: "db \<Rightarrow> sent_fields \<Rightarrow> response \<times> db" where
  "addbill_sent d body =
     (case bind_params body of
        Inl err \<Rightarrow> (JsonErr err, d)
      | Inr b \<Rightarrow> addbill d b)"

text \<open>A column-typed body as a body that is sent.\<close>

definition sent_of :: "'a option \<Rightarrow> 'a sent" where
  "sent_of v = (case v of None \<Rightarrow> Absent | Some x \<Rightarrow> Sent x)"

definition as_sent :: "fields \<Rightarrow> sent_fields" where
  "as_sent b =
     \<lparr>billfrom = billfrom b, billType = billType b, amountDue = sent_of (amountDue b),
      dueDate = sent_of (dueDate b), isPaid = isPaid b, paidInFull = paidInFull b,
      amountPaid = sent_of (amountPaid b), datePaid = sent_of (datePaid b),
      paidBy = paidBy b\<rparr>"

text \<open>\<^verbatim>\<open>PATCH /paybill/:billId\<close>: the statement starts as \<^verbatim>\<open>null\<close> and is chosen
  by the two tests on the amounts.\<close>

definition paybill_sql :: "rat option \<Rightarrow> rat option \<Rightarrow> pay_sql option" where
  "paybill_sql amountPaid' amountDue' =
     (if loose_eq amountPaid' amountDue' \<and> gt0 amountPaid' then Some (PayUpdate True True)
      else if gt0 amountPaid' then Some (PayUpdate True False)
      else None)"

definition paybill :: "db \<Rightarrow> jstring \<Rightarrow> fields \<Rightarrow> response \<times> db" where
  "paybill d billId body =
     (let billNum = parseInt billId;
          sql = paybill_sql (amountPaid body) (amountDue body)
      in case query_pay d sql (amountPaid body) (datePaid body) (paidBy body) billNum of
           (Inl err, d') \<Rightarrow> (JsonErr err, d')
         | (Inr n, d') \<Rightarrow> (PayConfirmation billNum, d'))"

text \<open>\<^verbatim>\<open>PATCH /updatebill/:billId\<close>: one of three statements, always one.\<close>

definition updatebill_sql :: "rat option \<Rightarrow> rat option \<Rightarrow> update_sql" where
  "updatebill_sql amountPaid' amountDue' =
     (if loose_eq amountPaid' amountDue' then BillUpdate True True
      else if gt0 amountPaid' then BillUpdate True False
      else BillUpdate False False)"

definition updatebill :: "db \<Rightarrow> jstring \<Rightarrow> fields \<Rightarrow> response \<times> db" where
  "updatebill d billId body =
     (let billNum = parseInt billId;
          sql = updatebill_sql (amountPaid body) (amountDue body)
      in case query_update d sql body billNum of
           (Inl err, d') \<Rightarrow> (JsonErr err, d')
         | (Inr n, d') \<Rightarrow> (UpdateConfirmation billNum, d'))"

text \<open>\<^verbatim>\<open>DELETE /bills/:billId\<close>\<close>

definition deletebill :: "db \<Rightarrow> jstring \<Rightarrow> response \<times> db" where
  "deletebill d billId =
     (let billNum = parseInt billId
      in case query_delete d billNum of
           (Inl err, d') \<Rightarrow> (JsonErr err, d')
         | (Inr n, d') \<Rightarrow> (DeleteConfirmation billNum, d'))"

section \<open>Sequences of requests\<close>

text \<open>The four write operations as requests, and the store after serving some of them
  in order.\<close>

datatype request =
    AddBill fields
  | PayBill jstring fields
  | UpdateBill jstring fields
  | DeleteBill jstring

fun serve :: "db \<Rightarrow> request \<Rightarrow> db" where
  "serve d (AddBill body) = snd (addbill d body)"
| "serve d (PayBill billId body) = snd (paybill d billId body)"
| "serve d (UpdateBill billId body) = snd (updatebill d billId body)"
| "serve d (DeleteBill billId) = snd (deletebill d billId)"

definition serve_all :: "db \<Rightarrow> request list \<Rightarrow> db" where
  "serve_all d reqs = foldl serve d reqs"

section \<open>The specification's status rule and the sample requests\<close>

text \<open>
  The rule of the specification, in its words: \<^verbatim>\<open>amountPaid > 0 AND amountPaid ==
  amountDue\<close> gives \<open>(true, true)\<close>, \<^verbatim>\<open>amountPaid > 0 AND amountPaid != amountDue\<close>
  gives \<open>(true, false)\<close>, and \<^verbatim>\<open>amountPaid <= 0\<close> (or absent or zero) gives
  \<open>(false, false)\<close>. The pair is \<open>(isPaid, paidInFull)\<close>. The server has no function of
  this name; its handlers are compared with the rule below.
\<close>

definition spec_deriveStatus :: "rat option \<Rightarrow> rat option \<Rightarrow> bool \<times> bool" where
  "spec_deriveStatus amountDue' amountPaid' =
     (case amountPaid' of
        None \<Rightarrow> (False, False)
      | Some p \<Rightarrow>
          if 0 < p \<and> amountDue' = Some p then (True, True)
          else if 0 < p then (True, False)
          else (False, False))"

text \<open>The implication between the two flags, on a request body or on a row.\<close>

definition flags_ok :: "('n, 'd, 'a) body_fields_scheme \<Rightarrow> bool" where
  "flags_ok r = (paidInFull r = Some True \<longrightarrow> isPaid r = Some True)"

text \<open>A body in which one of the four fields of a new bill is absent, empty or zero.
  Text fields are empty as the empty string, amounts and dates as the empty text.\<close>

definition required_missing :: "sent_fields \<Rightarrow> bool" where
  "required_missing b =
     (billfrom b = None \<or> billfrom b = Some [] \<or> billType b = None \<or> billType b = Some []
      \<or> amountDue b = Absent \<or> amountDue b = EmptyText \<or> amountDue b = Sent 0
      \<or> dueDate b = Absent \<or> dueDate b = EmptyText)"

text \<open>The state the user interface starts every form from (\<^verbatim>\<open>billData\<close> in
  \<^verbatim>\<open>App.jsx\<close>) holds the payment fields of an unpaid bill; the add form sends them
  unchanged.\<close>

definition unpaid_defaults :: "(rat option, date option, 'a) body_fields_scheme \<Rightarrow> bool" where
  "unpaid_defaults r =
     (isPaid r = Some False \<and> paidInFull r = Some False \<and> amountPaid r = Some 0
      \<and> datePaid r = Some (Date 9999 1 1) \<and> paidBy r = Some [])"

text \<open>The three request bodies of the README's walk through the API, and the body the
  add form sends for the first of them.\<close>

definition readme_add :: fields where
  "readme_add =
     \<lparr>billfrom = Some ''Primary Care Doctor'', billType = Some ''Medical'',
      amountDue = Some (5615 / 100), dueDate = Some (Date 2025 9 15),
      isPaid = None, paidInFull = None, amountPaid = None, datePaid = None, paidBy = None\<rparr>"

definition form_add :: fields where
  "form_add =
     \<lparr>billfrom = Some ''Primary Care Doctor'', billType = Some ''Medical'',
      amountDue = Some (5615 / 100), dueDate = Some (Date 2025 9 15),
      isPaid = Some False, paidInFull = Some False, amountPaid = Some 0,
      datePaid = Some (Date 9999 1 1), paidBy = Some []\<rparr>"

text \<open>The state of the form before anything is entered: \<^verbatim>\<open>billfrom\<close>, \<^verbatim>\<open>billType\<close>
  and \<^verbatim>\<open>dueDate\<close> are empty, \<^verbatim>\<open>amountDue\<close> is 0.\<close>

definition form_initial :: sent_fields where
  "form_initial =
     \<lparr>billfrom = Some [], billType = Some [], amountDue = Sent 0, dueDate = EmptyText,
      isPaid = Some False, paidInFull = Some False, amountPaid = Sent 0,
      datePaid = Sent (Date 9999 1 1), paidBy = Some []\<rparr>"

definition readme_update :: fields where
  "readme_update =
     \<lparr>billfrom = Some ''Internal Medicine Doctor'', billType = Some ''Medical'',
      amountDue = Some (5615 / 100), dueDate = Some (Date 2025 9 15),
      isPaid = None, paidInFull = None, amountPaid = Some (1557 / 100),
      datePaid = Some (Date 2025 8 10), paidBy = Some ''Visa''\<rparr>"

definition readme_pay :: fields where
  "readme_pay =
     \<lparr>billfrom = None, billType = None, amountDue = Some (5615 / 100), dueDate = None,
      isPaid = None, paidInFull = None, amountPaid = Some (5615 / 100),
      datePaid = Some (Date 2025 8 12), paidBy = Some ''Visa''\<rparr>"

text \<open>The store after the add form's request on the empty store: one unpaid bill with
  the id 1.\<close>

definition one_bill_db :: db where
  "one_bill_db = \<lparr>bills = [row 1 form_add], bills_billid_seq = 2\<rparr>"

text \<open>The same store after the README's payment in full of bill 1.\<close>

definition paid_bill_db :: db where
  "paid_bill_db =
     \<lparr>bills = [pay_row True True (Some (5615 / 100)) (Some (Date 2025 8 12)) (Some ''Visa'')
                 (row 1 form_add)],
      bills_billid_seq = 2\<rparr>"

section \<open>Lemmas about \<open>parseInt\<close>\<close>







section \<open>Lemmas about the store\<close>


lemma update_where_twice:
  assumes "\<And>r. f (f r) = f r" and "\<And>r. billid (f r) = billid r"
  shows "update_where f n (update_where f n d) = update_where f n d"
  using assms by (simp add: update_where_def)

lemma update_row_twice: "update_row p f b (update_row p f b r) = update_row p f b r"
  by (simp add: update_row_def)

lemma billid_update_row: "billid (update_row p f b r) = billid r"
  by (simp add: update_row_def)

lemma billid_pay_row: "billid (pay_row p f a dp pb r) = billid r"
  by (simp add: pay_row_def)

lemma matched_update_where:
  assumes "\<And>r. billid (f r) = billid r"
  shows "length (filter (\<lambda>r. billid r = n) (bills (update_where f m d)))
       = length (filter (\<lambda>r. billid r = n) (bills d))"
proof -
  have "(\<lambda>r. billid r = n) \<circ> (\<lambda>r. if billid r = m then f r else r) = (\<lambda>r. billid r = n)"
    using assms by (auto simp: fun_eq_iff)
  then show ?thesis
    by (simp add: update_where_def filter_map)
qed

section \<open>Lemmas about the handlers\<close>

lemma paybill_sql_positive:
  "0 < p \<Longrightarrow> paybill_sql (Some p) due = Some (PayUpdate True (due = Some p))"
  by (auto simp: paybill_sql_def loose_eq_def gt0_def)

lemma paybill_writes:
  assumes "parseInt billId = Some n" and "int4 n" and "amountPaid body = Some p" and "0 < p"
  shows "paybill d billId body
       = (PayConfirmation (Some n),
          update_where (pay_row True (amountDue body = Some p) (Some p) (datePaid body) (paidBy body)) n d)"
  using assms by (simp add: paybill_def paybill_sql_positive query_pay_def int_param_def)

lemma update_where_matching:
  assumes "\<And>r. billid (f r) = billid r"
  shows "r' \<in> set (bills (update_where f n d)) \<Longrightarrow> billid r' = n \<Longrightarrow> \<exists>r \<in> set (bills d). billid r = n \<and> r' = f r"
  using assms by (auto simp: update_where_def split: if_splits)

lemma update_where_ids:
  assumes "\<And>r. billid (f r) = billid r"
  shows "map billid (bills (update_where f n d)) = map billid (bills d)"
  using assms by (simp add: update_where_def)









lemma paybill_ignores_flags:
  "paybill d billId (body\<lparr>isPaid := x, paidInFull := y\<rparr>) = paybill d billId body"
  by (simp add: paybill_def)

lemma update_row_ignores_flags:
  "update_row p f (body\<lparr>isPaid := x, paidInFull := y\<rparr>) = update_row p f body"
  by (simp add: fun_eq_iff update_row_def)

lemma updatebill_ignores_flags:
  "updatebill d billId (body\<lparr>isPaid := x, paidInFull := y\<rparr>) = updatebill d billId body"
  by (cases "int_param (parseInt billId)";
      cases "updatebill_sql (amountPaid body) (amountDue body)")
     (simp_all add: updatebill_def query_update_def update_row_ignores_flags)

lemma updatebill_sql_rule:
  "gt0 paid \<or> paid \<noteq> due \<Longrightarrow>
     updatebill_sql paid due = (case spec_deriveStatus due paid of (p, f) \<Rightarrow> BillUpdate p f)"
  by (auto simp: updatebill_sql_def spec_deriveStatus_def loose_eq_def gt0_def split: option.splits)

lemma addbill_created:
  assumes "addbill d body = (Json201 r, d')"
  shows "r = row (int (bills_billid_seq d)) body" and "bills d' = bills d @ [r]"
    and "bills_billid_seq d \<le> 2000000" and "billid r \<notin> billid ` set (bills d)"
  using assms
  by (auto simp: addbill_def insert_returning_def nextval_def row_def split: if_splits)

lemma paybill_rows:
  assumes "parseInt billId = Some n" and "int4 n" and "gt0 (amountPaid body)"
    and "r \<in> set (bills (snd (paybill d billId body)))" and "billid r = n"
  shows "(isPaid r, paidInFull r)
       = map_prod Some Some (spec_deriveStatus (amountDue body) (amountPaid body))"
proof -
  from assms(3) obtain p where p: "amountPaid body = Some p" "0 < p"
    by (auto simp: gt0_def split: option.splits)
  let ?f = "pay_row True (amountDue body = Some p) (Some p) (datePaid body) (paidBy body)"
  from assms(1,2) p have "paybill d billId body = (PayConfirmation (Some n), update_where ?f n d)"
    by (intro paybill_writes)
  with assms(4) have "r \<in> set (bills (update_where ?f n d))"
    by simp
  with assms(5) obtain r0 where "r = ?f r0"
    using update_where_matching [of ?f r n d] by (auto simp: billid_pay_row)
  with p show ?thesis
    by (auto simp: pay_row_def spec_deriveStatus_def)
qed

lemma updatebill_writes:
  assumes "parseInt billId = Some n" and "int4 n"
    and "updatebill_sql (amountPaid body) (amountDue body) = BillUpdate p f"
  shows "updatebill d billId body
       = (UpdateConfirmation (Some n), update_where (update_row p f body) n d)"
  using assms by (simp add: updatebill_def query_update_def int_param_def)

lemma updatebill_rows:
  assumes "parseInt billId = Some n" and "int4 n"
    and "gt0 (amountPaid body) \<or> amountPaid body \<noteq> amountDue body"
    and "r \<in> set (bills (snd (updatebill d billId body)))" and "billid r = n"
  shows "(isPaid r, paidInFull r)
       = map_prod Some Some (spec_deriveStatus (amountDue body) (amountPaid body))"
proof -
  obtain p f where pf: "spec_deriveStatus (amountDue body) (amountPaid body) = (p, f)"
    by (cases "spec_deriveStatus (amountDue body) (amountPaid body)")
  with assms(3) have "updatebill_sql (amountPaid body) (amountDue body) = BillUpdate p f"
    by (simp add: updatebill_sql_rule)
  with assms(1,2)
  have "updatebill d billId body
      = (UpdateConfirmation (Some n), update_where (update_row p f body) n d)"
    by (intro updatebill_writes)
  with assms(4) have "r \<in> set (bills (update_where (update_row p f body) n d))"
    by simp
  with assms(5) obtain r0 where "r = update_row p f body r0"
    using update_where_matching [of "update_row p f body" r n d] by (auto simp: billid_update_row)
  with pf show ?thesis
    by (simp add: update_row_def)
qed

lemma bind_params_as_sent: "bind_params (as_sent b) = Inr b"
  by (simp add: bind_params_def as_sent_def bind_number_def bind_date_def sent_of_def
      split: option.splits)

lemma addbill_sent_typed: "addbill_sent d (as_sent b) = addbill d b"
  by (simp add: addbill_sent_def bind_params_as_sent)

lemma as_sent_inject: "as_sent b = as_sent b' \<Longrightarrow> b = b'"
proof -
  assume "as_sent b = as_sent b'"
  then have "bind_params (as_sent b) = bind_params (as_sent b')"
    by simp
  then show "b = b'"
    by (simp add: bind_params_as_sent)
qed

lemma sent_of_onto: "v \<noteq> EmptyText \<Longrightarrow> \<exists>x. sent_of x = v"
proof (cases v)
  case Absent
  then have "sent_of None = v" by (simp add: sent_of_def)
  then show ?thesis ..
next
  case (Sent x)
  then have "sent_of (Some x) = v" by (simp add: sent_of_def)
  then show ?thesis ..
qed simp

lemma as_sent_onto:
  assumes "amountDue body \<noteq> EmptyText" and "dueDate body \<noteq> EmptyText"
    and "amountPaid body \<noteq> EmptyText" and "datePaid body \<noteq> EmptyText"
  shows "\<exists>b. as_sent b = body"
proof -
  from assms obtain due dd paid dp
    where v: "sent_of due = amountDue body" "sent_of dd = dueDate body"
      "sent_of paid = amountPaid body" "sent_of dp = datePaid body"
    using sent_of_onto by metis
  let ?b = "\<lparr>billfrom = billfrom body, billType = billType body, amountDue = due,
      dueDate = dd, isPaid = isPaid body, paidInFull = paidInFull body, amountPaid = paid,
      datePaid = dp, paidBy = paidBy body\<rparr>"
  from v have "as_sent ?b = body"
    by (simp add: as_sent_def)
  then show ?thesis ..
qed

lemma addbill_sent_empty_number:
  "amountDue body = EmptyText \<Longrightarrow> addbill_sent d body = (JsonErr InvalidNumber, d)"
  by (simp add: addbill_sent_def bind_params_def bind_number_def)

lemma addbill_sent_empty_date:
  assumes "amountDue body \<noteq> EmptyText" and "dueDate body = EmptyText"
  shows "addbill_sent d body = (JsonErr InvalidDate, d)"
  using assms
  by (cases "amountDue body")
     (simp_all add: addbill_sent_def bind_params_def bind_number_def bind_date_def)

lemma addbill_accepted:
  assumes "bills_billid_seq d \<le> 2000000"
    and "int (bills_billid_seq d) \<notin> billid ` set (bills d)"
  shows "addbill d body
       = (Json201 (row (int (bills_billid_seq d)) body),
          d\<lparr>bills := bills d @ [row (int (bills_billid_seq d)) body],
            bills_billid_seq := bills_billid_seq d + 1\<rparr>)"
  using assms by (simp add: addbill_def insert_returning_def nextval_def)

section \<open>The two flags along a sequence of requests\<close>

lemma flags_ok_row: "flags_ok (row n b) = flags_ok b"
  by (simp add: flags_ok_def row_def)

lemma flags_ok_pay_row: "flags_ok (pay_row True f a dp pb r)"
  by (simp add: flags_ok_def pay_row_def)

lemma flags_ok_update_row: "p \<or> \<not> f \<Longrightarrow> flags_ok (update_row p f b r)"
  by (auto simp: flags_ok_def update_row_def)

lemma update_where_keeps:
  assumes "\<forall>r \<in> set (bills d). P r" and "\<And>r. P (f r)"
  shows "\<forall>r \<in> set (bills (update_where f n d)). P r"
  using assms by (auto simp: update_where_def)

lemma addbill_bills:
  "set (bills (snd (addbill d body))) \<subseteq> insert (row (int (bills_billid_seq d)) body) (set (bills d))"
  by (simp add: addbill_def insert_returning_def nextval_def) blast

lemma addbill_keeps:
  assumes "\<forall>r \<in> set (bills d). flags_ok r" and "flags_ok body"
  shows "\<forall>r \<in> set (bills (snd (addbill d body))). flags_ok r"
proof
  fix r
  assume "r \<in> set (bills (snd (addbill d body)))"
  with addbill_bills [of d body]
  have "r = row (int (bills_billid_seq d)) body \<or> r \<in> set (bills d)"
    by blast
  with assms show "flags_ok r"
    by (auto simp: flags_ok_row)
qed

lemma paybill_sql_gt0:
  "gt0 paid \<Longrightarrow> paybill_sql paid due = Some (PayUpdate True (loose_eq paid due))"
  by (simp add: paybill_sql_def)

lemma paybill_sql_not_gt0: "\<not> gt0 paid \<Longrightarrow> paybill_sql paid due = None"
  by (simp add: paybill_sql_def)

lemma paybill_keeps:
  assumes "\<forall>r \<in> set (bills d). flags_ok r"
  shows "\<forall>r \<in> set (bills (snd (paybill d billId body))). flags_ok r"
proof (cases "gt0 (amountPaid body)")
  case False
  then have "snd (paybill d billId body) = d"
    by (simp add: paybill_def query_pay_def paybill_sql_not_gt0)
  with assms show ?thesis
    by simp
next
  case True
  note sql = paybill_sql_gt0 [OF True, of "amountDue body"]
  show ?thesis
  proof (cases "int_param (parseInt billId)")
    case (Inl e)
    with sql have "snd (paybill d billId body) = d"
      by (simp add: paybill_def query_pay_def)
    with assms show ?thesis
      by simp
  next
    case (Inr n)
    with sql have "snd (paybill d billId body)
        = update_where (pay_row True (loose_eq (amountPaid body) (amountDue body))
            (amountPaid body) (datePaid body) (paidBy body)) n d"
      by (simp add: paybill_def query_pay_def)
    moreover have "\<forall>r \<in> set (bills (update_where
        (pay_row True (loose_eq (amountPaid body) (amountDue body))
            (amountPaid body) (datePaid body) (paidBy body)) n d)). flags_ok r"
      using assms by (rule update_where_keeps) (rule flags_ok_pay_row)
    ultimately show ?thesis
      by simp
  qed
qed

lemma updatebill_sql_flags:
  "updatebill_sql paid due = BillUpdate p f \<Longrightarrow> p \<or> \<not> f"
  by (simp add: updatebill_sql_def split: if_splits)

lemma updatebill_keeps:
  assumes "\<forall>r \<in> set (bills d). flags_ok r"
  shows "\<forall>r \<in> set (bills (snd (updatebill d billId body))). flags_ok r"
proof (cases "updatebill_sql (amountPaid body) (amountDue body)")
  case (BillUpdate p f)
  then have pf: "p \<or> \<not> f"
    by (rule updatebill_sql_flags)
  show ?thesis
  proof (cases "int_param (parseInt billId)")
    case (Inl e)
    with BillUpdate have "snd (updatebill d billId body) = d"
      by (simp add: updatebill_def query_update_def)
    with assms show ?thesis
      by simp
  next
    case (Inr n)
    with BillUpdate
    have "snd (updatebill d billId body) = update_where (update_row p f body) n d"
      by (simp add: updatebill_def query_update_def)
    moreover have "\<forall>r \<in> set (bills (update_where (update_row p f body) n d)). flags_ok r"
      using assms by (rule update_where_keeps) (rule flags_ok_update_row [OF pf])
    ultimately show ?thesis
      by simp
  qed
qed

lemma deletebill_bills: "set (bills (snd (deletebill d billId))) \<subseteq> set (bills d)"
  by (cases "int_param (parseInt billId)") (simp_all add: deletebill_def query_delete_def)

lemma deletebill_keeps:
  assumes "\<forall>r \<in> set (bills d). flags_ok r"
  shows "\<forall>r \<in> set (bills (snd (deletebill d billId))). flags_ok r"
  using assms deletebill_bills [of d billId] by blast

lemma serve_keeps:
  assumes "\<forall>r \<in> set (bills d). flags_ok r" and "\<And>body. req = AddBill body \<Longrightarrow> flags_ok body"
  shows "\<forall>r \<in> set (bills (serve d req)). flags_ok r"
proof (cases req)
  case (AddBill body)
  then have "flags_ok body"
    by (rule assms(2))
  with assms(1) have "\<forall>r \<in> set (bills (snd (addbill d body))). flags_ok r"
    by (rule addbill_keeps)
  with AddBill show ?thesis
    by simp
next
  case (PayBill billId body)
  from assms(1) have "\<forall>r \<in> set (bills (snd (paybill d billId body))). flags_ok r"
    by (rule paybill_keeps)
  with PayBill show ?thesis
    by simp
next
  case (UpdateBill billId body)
  from assms(1) have "\<forall>r \<in> set (bills (snd (updatebill d billId body))). flags_ok r"
    by (rule updatebill_keeps)
  with UpdateBill show ?thesis
    by simp
next
  case (DeleteBill billId)
  from assms(1) have "\<forall>r \<in> set (bills (snd (deletebill d billId))). flags_ok r"
    by (rule deletebill_keeps)
  with DeleteBill show ?thesis
    by simp
qed

lemma serve_all_keeps:
  assumes "\<forall>r \<in> set (bills d). flags_ok r"
    and "\<forall>body. AddBill body \<in> set reqs \<longrightarrow> flags_ok body"
  shows "\<forall>r \<in> set (bills (serve_all d reqs)). flags_ok r"
  using assms
proof (induction reqs arbitrary: d)
  case Nil
  then show ?case
    by (simp add: serve_all_def)
next
  case (Cons req reqs)
  have "flags_ok body" if "req = AddBill body" for body
    using Cons.prems(2) that by simp
  with Cons.prems(1) have "\<forall>r \<in> set (bills (serve d req)). flags_ok r"
    by (rule serve_keeps)
  moreover have "\<forall>body. AddBill body \<in> set reqs \<longrightarrow> flags_ok body"
    using Cons.prems(2) by simp
  ultimately have "\<forall>r \<in> set (bills (serve_all (serve d req) reqs)). flags_ok r"
    by (rule Cons.IH)
  then show ?case
    by (simp add: serve_all_def)
qed

lemma num_param_of_int: "num_param (Some (of_int n)) = int_param (Some n)"
  by (simp add: num_param_def)

lemma get_bill_created:
  assumes "addbill d body = (Json201 r, d')" and "js_Number billId = Some (of_int (billid r))"
  shows "get_bill d' billId = Json200_row (Some r)"
proof -
  note c = addbill_created [OF assms(1)]
  from c(1) have id: "billid r = int (bills_billid_seq d)"
    by (simp add: row_def)
  with c(3) have "int4 (billid r)"
    by (simp add: int4_def)
  moreover from c(4) have "filter (\<lambda>x. billid x = billid r) (bills d) = []"
    unfolding filter_empty_conv by (metis imageI)
  ultimately show ?thesis
    using assms(2) c(2)
    by (simp add: get_bill_def select_where_def num_param_of_int int_param_def)
qed

section \<open>The sample requests, evaluated\<close>

lemmas double_defs = to_double_def pow2_def round_half_even_def Let_def

lemma binary_exponent_1: "binary_exponent 1 = 0"
  by (simp add: binary_exponent_def bit_length.simps)



lemma binary_exponent_near_1: "binary_exponent (10000000000000000001 / 10000000000000000000) = 0"
  by (simp add: binary_exponent_def bit_length.simps)


lemma to_double_1: "to_double 1 = Some 1"
  by (simp add: double_defs binary_exponent_1)



lemma floor_near_1:
  "\<lfloor>85899345920000000008589934592 / 19073486328125 :: rat\<rfloor> = 4503599627370496"
  by (rule floor_unique) simp_all

lemma round_near_1:
  "round_half_even (85899345920000000008589934592 / 19073486328125) = 4503599627370496"
  by (simp add: round_half_even_def floor_near_1 Let_def)

lemma to_double_near_1: "to_double (10000000000000000001 / 10000000000000000000) = Some 1"
  by (simp add: to_double_def pow2_def Let_def binary_exponent_near_1 round_near_1)

lemmas parse_defs =
  parseInt_def digits_number_def digits_value_def is_digit_def digit_of_def
  StrWhiteSpaceChar_def units_def unit_def

lemma parseInt_1: "parseInt (units ''1'') = Some 1"
  by (simp add: parse_defs to_double_1)





lemma parseInt_nbsp_1: "parseInt (0xA0 # units ''1'') = Some 1"
  by (simp add: parse_defs to_double_1)

lemmas number_defs =
  js_Number_def literal_value_def trim_def decimal_literal_def unsigned_decimal_def
  fraction_part_def exponent_part_def all_digits_def digits_value_def is_digit_def
  digit_of_def StrWhiteSpaceChar_def units_def unit_def

lemma Number_1: "js_Number (units ''1'') = Some 1"
  by (simp add: number_defs to_double_1)



lemma literal_near_1:
  "literal_value (units ''1.0000000000000000001'')
     = Some (10000000000000000001 / 10000000000000000000)"
  by (simp add: literal_value_def trim_def decimal_literal_def unsigned_decimal_def
      fraction_part_def exponent_part_def all_digits_def digits_value_def is_digit_def
      digit_of_def StrWhiteSpaceChar_def units_def unit_def)

lemma Number_near_1: "js_Number (units ''1.0000000000000000001'') = Some 1"
  by (simp add: js_Number_def literal_near_1 to_double_near_1)

lemma Number_nbsp_1: "js_Number (0xA0 # units ''1'') = Some 1"
  by (simp add: number_defs to_double_1)

lemma add_on_empty: "addbill empty_db form_add = (Json201 (row 1 form_add), one_bill_db)"
  by (simp add: addbill_def insert_returning_def nextval_def empty_db_def one_bill_db_def)

lemma pay_in_full: "paybill one_bill_db (units ''1'') readme_pay = (PayConfirmation (Some 1), paid_bill_db)"
  by (simp add: paybill_def parseInt_1 paybill_sql_def readme_pay_def loose_eq_def gt0_def
      query_pay_def int_param_def int4_def one_bill_db_def update_where_def paid_bill_db_def
      row_def pay_row_def)

lemma update_partial:
  "updatebill one_bill_db (units ''1'') readme_update
     = (UpdateConfirmation (Some 1),
        \<lparr>bills = [update_row True False readme_update (row 1 form_add)], bills_billid_seq = 2\<rparr>)"
  by (simp add: updatebill_def parseInt_1 updatebill_sql_def readme_update_def loose_eq_def
      gt0_def query_update_def int_param_def int4_def one_bill_db_def update_where_def row_def)


lemma add_then_pay:
  "serve_all empty_db [AddBill form_add, PayBill (units ''1'') readme_pay] = paid_bill_db"
  by (simp add: serve_all_def add_on_empty pay_in_full)

text \<open>White space and rounding in the id: a no-break space before the digit is skipped,
  and a text whose value is nearer to 1 than to any other double is the number 1.\<close>

lemma delete_nbsp_1:
  "deletebill one_bill_db (0xA0 # units ''1'')
     = (DeleteConfirmation (Some 1), \<lparr>bills = [], bills_billid_seq = 2\<rparr>)"
  by (simp add: deletebill_def parseInt_nbsp_1 query_delete_def int_param_def int4_def
      one_bill_db_def row_def)

lemma get_near_1:
  "get_bill one_bill_db (units ''1.0000000000000000001'') = Json200_row (Some (row 1 form_add))"
  by (simp add: get_bill_def Number_near_1 select_where_def num_param_def int_param_def
      int4_def one_bill_db_def row_def)

section \<open>Updating twice\<close>

text \<open>
  C8. \<^verbatim>\<open>updateBill\<close> is idempotent: for every store, every id segment (so also every
  id of a stored bill) and every request body, a second call with the same input gives
  the response and the store of the first call, so the store after two calls is the
  store after one.
\<close>

theorem updatebill_idempotent:
  "updatebill (snd (updatebill d billId body)) billId body = updatebill d billId body"
  by (cases "int_param (parseInt billId)";
      cases "updatebill_sql (amountPaid body) (amountDue body)")
     (simp_all add: updatebill_def query_update_def update_where_twice update_row_twice
        billid_update_row matched_update_where)

text \<open>On the stored bill 1 the README's update changes the row, and repeating it changes
  nothing more.\<close>

theorem updatebill_idempotent_witness:
  "updatebill (snd (updatebill one_bill_db (units ''1'') readme_update)) (units ''1'') readme_update
     = (UpdateConfirmation (Some 1),
        \<lparr>bills = [update_row True False readme_update (row 1 form_add)], bills_billid_seq = 2\<rparr>)"
  using updatebill_idempotent [of one_bill_db "units ''1''" readme_update]
  by (simp add: update_partial)

section \<open>Paying nothing, and what paying does to the flags\<close>

text \<open>
  C10, as the claim states it, fails in its last clause: \<^verbatim>\<open>payBill\<close> can set
  \<^verbatim>\<open>paidInFull\<close> back to false. On the bill that was paid in full, a payment of 15.57
  against an amount due of 56.15 is confirmed and leaves \<^verbatim>\<open>paidInFull = false\<close>.
\<close>

theorem paybill_resets_paid_in_full_counterexample:
  "map paidInFull (bills paid_bill_db) = [Some True]
   \<and> fst (paybill paid_bill_db (units ''1'') readme_update) = PayConfirmation (Some 1)
   \<and> map paidInFull (bills (snd (paybill paid_bill_db (units ''1'') readme_update)))
     = [Some False]"
  by (simp add: paybill_def parseInt_1 paybill_sql_def readme_update_def loose_eq_def gt0_def
      query_pay_def int_param_def int4_def paid_bill_db_def update_where_def row_def
      pay_row_def)

text \<open>
  C10, amended. For every \<^verbatim>\<open>payBill\<close> request whose \<^verbatim>\<open>amountPaid\<close> is absent, zero or
  negative, no update statement is selected (\<^verbatim>\<open>sql\<close> stays \<^verbatim>\<open>null\<close>), the query fails
  instead of writing, and the store is what it was. For every \<^verbatim>\<open>payBill\<close> request at
  all, the store afterwards holds the same bills in the same order, no bill's
  \<^verbatim>\<open>isPaid\<close> goes from true to anything else, and a bill's \<^verbatim>\<open>paidInFull\<close> goes from
  true to something else only by becoming false in a request that pays a positive amount
  different from the request's \<^verbatim>\<open>amountDue\<close>.
\<close>

theorem paybill_flags_after:
  "(amountPaid body = None \<or> (\<exists>v. amountPaid body = Some v \<and> v \<le> 0) \<longrightarrow>
      paybill_sql (amountPaid body) (amountDue body) = None
      \<and> paybill d billId body = (JsonErr NullQuery, d))
   \<and> list_all2
        (\<lambda>r r'. billid r' = billid r
           \<and> (isPaid r = Some True \<longrightarrow> isPaid r' = Some True)
           \<and> (paidInFull r = Some True \<longrightarrow>
                paidInFull r' = Some True
                \<or> (paidInFull r' = Some False \<and> gt0 (amountPaid body)
                    \<and> amountPaid body \<noteq> amountDue body)))
        (bills d) (bills (snd (paybill d billId body)))"
proof -
  let ?P = "\<lambda>r r'. billid r' = billid r
           \<and> (isPaid r = Some True \<longrightarrow> isPaid r' = Some True)
           \<and> (paidInFull r = Some True \<longrightarrow>
                paidInFull r' = Some True
                \<or> (paidInFull r' = Some False \<and> gt0 (amountPaid body)
                    \<and> amountPaid body \<noteq> amountDue body))"
  have none: "paybill_sql (amountPaid body) (amountDue body) = None
      \<and> paybill d billId body = (JsonErr NullQuery, d)"
    if "amountPaid body = None \<or> (\<exists>v. amountPaid body = Some v \<and> v \<le> 0)"
  proof -
    from that have "\<not> gt0 (amountPaid body)"
      by (auto simp: gt0_def)
    then show ?thesis
      by (simp add: paybill_def query_pay_def paybill_sql_not_gt0)
  qed
  have same: "list_all2 ?P (bills d) (bills d)"
    by (simp add: list_all2_same)
  have "list_all2 ?P (bills d) (bills (snd (paybill d billId body)))"
  proof (cases "gt0 (amountPaid body)")
    case False
    then have "snd (paybill d billId body) = d"
      by (simp add: paybill_def query_pay_def paybill_sql_not_gt0)
    with same show ?thesis
      by simp
  next
    case True
    note sql = paybill_sql_gt0 [OF True, of "amountDue body"]
    show ?thesis
    proof (cases "int_param (parseInt billId)")
      case (Inl e)
      with sql have "snd (paybill d billId body) = d"
        by (simp add: paybill_def query_pay_def)
      with same show ?thesis
        by simp
    next
      case (Inr n)
      let ?f = "pay_row True (loose_eq (amountPaid body) (amountDue body))
            (amountPaid body) (datePaid body) (paidBy body)"
      from Inr sql have eq: "snd (paybill d billId body) = update_where ?f n d"
        by (simp add: paybill_def query_pay_def)
      have "?P r (if billid r = n then ?f r else r)" for r
        using True by (simp add: pay_row_def loose_eq_def)
      then have "list_all2 ?P (bills d) (map (\<lambda>r. if billid r = n then ?f r else r) (bills d))"
        by (simp add: list_all2_map2 list_all2_same)
      with eq show ?thesis
        by (simp add: update_where_def)
    qed
  qed
  with none show ?thesis
    by blast
qed

text \<open>A request with the amount 0 on the bill that was paid in full leaves it paid in
  full; the README's payment in full keeps the unpaid bill's id and makes it paid.\<close>

theorem paybill_flags_after_witness:
  "amountPaid form_add = Some 0
   \<and> paybill_sql (amountPaid form_add) (amountDue form_add) = None
   \<and> paybill paid_bill_db (units ''1'') form_add = (JsonErr NullQuery, paid_bill_db)
   \<and> list_all2 (\<lambda>r r'. billid r' = billid r \<and> isPaid r' = Some True \<and> paidInFull r' = Some True)
        (bills paid_bill_db) (bills (snd (paybill paid_bill_db (units ''1'') form_add)))"
proof -
  have a: "amountPaid form_add = Some 0"
    by (simp add: form_add_def)
  then have h: "amountPaid form_add = None \<or> (\<exists>v. amountPaid form_add = Some v \<and> v \<le> 0)"
    by simp
  note t = paybill_flags_after [of form_add paid_bill_db "units ''1''"]
  from t h have 1: "paybill_sql (amountPaid form_add) (amountDue form_add) = None
      \<and> paybill paid_bill_db (units ''1'') form_add = (JsonErr NullQuery, paid_bill_db)"
    by blast
  then have "snd (paybill paid_bill_db (units ''1'') form_add) = paid_bill_db"
    by simp
  moreover have "list_all2 (\<lambda>r r'. billid r' = billid r \<and> isPaid r' = Some True
      \<and> paidInFull r' = Some True) (bills paid_bill_db) (bills paid_bill_db)"
    by (simp add: paid_bill_db_def pay_row_def)
  ultimately show ?thesis
    using a 1 by simp
qed

section \<open>Paying a stored bill\<close>

text \<open>
  C7. For every \<^verbatim>\<open>payBill\<close> on the id of a stored bill with \<^verbatim>\<open>amountPaid > 0\<close>: the
  request is confirmed, the bill is still stored, and every stored record with that id
  has \<^verbatim>\<open>isPaid = true\<close>, has \<^verbatim>\<open>paidInFull = true\<close> if \<^verbatim>\<open>amountPaid\<close> equals the
  \<^verbatim>\<open>amountDue\<close> of the request and \<^verbatim>\<open>paidInFull = false\<close> if it differs, and holds the
  \<^verbatim>\<open>amountPaid\<close>, \<^verbatim>\<open>datePaid\<close> and \<^verbatim>\<open>paidBy\<close> of the request.
\<close>

theorem paybill_positive_amount:
  assumes "parseInt billId = Some n" and "int4 n" and "n \<in> billid ` set (bills d)"
    and "amountPaid body = Some p" and "0 < p"
  shows "fst (paybill d billId body) = PayConfirmation (Some n)
       \<and> (\<exists>r \<in> set (bills (snd (paybill d billId body))). billid r = n)
       \<and> (\<forall>r \<in> set (bills (snd (paybill d billId body))). billid r = n \<longrightarrow>
            isPaid r = Some True
            \<and> (amountDue body = Some p \<longrightarrow> paidInFull r = Some True)
            \<and> (amountDue body \<noteq> Some p \<longrightarrow> paidInFull r = Some False)
            \<and> amountPaid r = Some p \<and> datePaid r = datePaid body \<and> paidBy r = paidBy body)"
proof -
  let ?f = "pay_row True (amountDue body = Some p) (Some p) (datePaid body) (paidBy body)"
  have eq: "paybill d billId body = (PayConfirmation (Some n), update_where ?f n d)"
    using assms by (intro paybill_writes)
  have "map billid (bills (update_where ?f n d)) = map billid (bills d)"
    by (simp add: update_where_ids billid_pay_row)
  then have "billid ` set (bills (update_where ?f n d)) = billid ` set (bills d)"
    by (metis set_map)
  with assms(3) have "n \<in> billid ` set (bills (update_where ?f n d))"
    by simp
  then have ex: "\<exists>r \<in> set (bills (update_where ?f n d)). billid r = n"
    by auto
  have all: "isPaid r' = Some True
            \<and> (amountDue body = Some p \<longrightarrow> paidInFull r' = Some True)
            \<and> (amountDue body \<noteq> Some p \<longrightarrow> paidInFull r' = Some False)
            \<and> amountPaid r' = Some p \<and> datePaid r' = datePaid body \<and> paidBy r' = paidBy body"
    if "r' \<in> set (bills (update_where ?f n d))" and "billid r' = n" for r'
  proof -
    from that obtain r where "r' = ?f r"
      using update_where_matching [of ?f r' n d] by (auto simp: billid_pay_row)
    then show ?thesis
      by (simp add: pay_row_def)
  qed
  then have "\<forall>r \<in> set (bills (update_where ?f n d)). billid r = n \<longrightarrow>
            isPaid r = Some True
            \<and> (amountDue body = Some p \<longrightarrow> paidInFull r = Some True)
            \<and> (amountDue body \<noteq> Some p \<longrightarrow> paidInFull r = Some False)
            \<and> amountPaid r = Some p \<and> datePaid r = datePaid body \<and> paidBy r = paidBy body"
    by blast
  with ex show ?thesis
    unfolding eq fst_conv snd_conv by blast
qed


text \<open>The README's payment of 56.15 on the bill of 56.15.\<close>

theorem paybill_positive_amount_witness:
  "parseInt (units ''1'') = Some 1 \<and> int4 1 \<and> 1 \<in> billid ` set (bills one_bill_db)
   \<and> amountPaid readme_pay = Some (5615 / 100) \<and> amountDue readme_pay = Some (5615 / 100)
   \<and> (0::rat) < 5615 / 100
   \<and> fst (paybill one_bill_db (units ''1'') readme_pay) = PayConfirmation (Some 1)
   \<and> (\<exists>r \<in> set (bills (snd (paybill one_bill_db (units ''1'') readme_pay))).
         billid r = 1 \<and> isPaid r = Some True \<and> paidInFull r = Some True
         \<and> amountPaid r = Some (5615 / 100) \<and> datePaid r = Some (Date 2025 8 12)
         \<and> paidBy r = Some ''Visa'')"
proof -
  have h: "parseInt (units ''1'') = Some 1" "int4 1" "1 \<in> billid ` set (bills one_bill_db)"
    "amountPaid readme_pay = Some (5615 / 100)" "(0::rat) < 5615 / 100"
    by (simp_all add: parseInt_1 int4_def one_bill_db_def row_def readme_pay_def)
  have due: "amountDue readme_pay = Some (5615 / 100)"
    and rest: "datePaid readme_pay = Some (Date 2025 8 12)" "paidBy readme_pay = Some ''Visa''"
    by (simp_all add: readme_pay_def)
  from paybill_positive_amount [OF h] due rest h show ?thesis
    by auto
qed

section \<open>An id that matches no bill\<close>




section \<open>The id segment of the path\<close>




section \<open>Flags supplied by the caller\<close>

text \<open>
  C1, as the claim states it, fails for \<^verbatim>\<open>addBill\<close>: a request that supplies
  \<^verbatim>\<open>isPaid = true\<close> and \<^verbatim>\<open>paidInFull = true\<close> with \<^verbatim>\<open>amountPaid = 0\<close> is stored
  with both flags true, where the status rule gives false and false.
\<close>

theorem supplied_flags_counterexample:
  "addbill empty_db (form_add\<lparr>isPaid := Some True, paidInFull := Some True\<rparr>)
     = (Json201 (row 1 (form_add\<lparr>isPaid := Some True, paidInFull := Some True\<rparr>)),
        \<lparr>bills = [row 1 (form_add\<lparr>isPaid := Some True, paidInFull := Some True\<rparr>)],
         bills_billid_seq = 2\<rparr>)
   \<and> isPaid (row 1 (form_add\<lparr>isPaid := Some True, paidInFull := Some True\<rparr>)) = Some True
   \<and> paidInFull (row 1 (form_add\<lparr>isPaid := Some True, paidInFull := Some True\<rparr>)) = Some True
   \<and> spec_deriveStatus (amountDue form_add) (amountPaid form_add) = (False, False)"
  by (simp add: addbill_def insert_returning_def nextval_def empty_db_def row_def form_add_def
      spec_deriveStatus_def)

text \<open>
  C1, amended. For every pay and every update request the values supplied for
  \<^verbatim>\<open>isPaid\<close> and \<^verbatim>\<open>paidInFull\<close> are ignored: response and store are the same
  whatever they are. The flags that a pay request with \<^verbatim>\<open>amountPaid > 0\<close> writes to the
  bill are those of the status rule on the request's \<^verbatim>\<open>amountPaid\<close> and
  \<^verbatim>\<open>amountDue\<close>, and so are the flags that an update request writes whenever
  \<^verbatim>\<open>amountPaid > 0\<close> or \<^verbatim>\<open>amountPaid\<close> differs from \<^verbatim>\<open>amountDue\<close>. A successful add
  request stores \<^verbatim>\<open>isPaid\<close> and \<^verbatim>\<open>paidInFull\<close> as the request gives them.
\<close>

theorem supplied_flags:
  "paybill d billId (body\<lparr>isPaid := x, paidInFull := y\<rparr>) = paybill d billId body
   \<and> updatebill d billId (body\<lparr>isPaid := x, paidInFull := y\<rparr>) = updatebill d billId body
   \<and> (parseInt billId = Some n \<and> int4 n \<and> gt0 (amountPaid body) \<longrightarrow>
        (\<forall>r \<in> set (bills (snd (paybill d billId body))). billid r = n \<longrightarrow>
           (isPaid r, paidInFull r)
             = map_prod Some Some (spec_deriveStatus (amountDue body) (amountPaid body))))
   \<and> (parseInt billId = Some n \<and> int4 n
        \<and> (gt0 (amountPaid body) \<or> amountPaid body \<noteq> amountDue body) \<longrightarrow>
        (\<forall>r \<in> set (bills (snd (updatebill d billId body))). billid r = n \<longrightarrow>
           (isPaid r, paidInFull r)
             = map_prod Some Some (spec_deriveStatus (amountDue body) (amountPaid body))))
   \<and> (addbill d body = (Json201 r', d') \<longrightarrow>
        r' \<in> set (bills d') \<and> isPaid r' = isPaid body \<and> paidInFull r' = paidInFull body)"
proof -
  have "r' \<in> set (bills d') \<and> isPaid r' = isPaid body \<and> paidInFull r' = paidInFull body"
    if "addbill d body = (Json201 r', d')"
    using addbill_created(1,2) [OF that] by (simp add: row_def)
  then show ?thesis
    using paybill_rows [of billId n body _ d] updatebill_rows [of billId n body _ d]
    by (simp only: paybill_ignores_flags updatebill_ignores_flags) blast
qed


theorem supplied_flags_witness:
  "updatebill one_bill_db (units ''1'') (readme_update\<lparr>isPaid := Some False, paidInFull := Some True\<rparr>)
     = updatebill one_bill_db (units ''1'') readme_update
   \<and> paybill one_bill_db (units ''1'') (readme_pay\<lparr>isPaid := Some False, paidInFull := Some False\<rparr>)
     = paybill one_bill_db (units ''1'') readme_pay
   \<and> parseInt (units ''1'') = Some 1 \<and> int4 1 \<and> gt0 (amountPaid readme_pay)
   \<and> gt0 (amountPaid readme_update)
   \<and> map (\<lambda>r. (billid r, isPaid r, paidInFull r)) (bills (snd (paybill one_bill_db (units ''1'') readme_pay)))
       = [(1, Some True, Some True)]
   \<and> spec_deriveStatus (amountDue readme_pay) (amountPaid readme_pay) = (True, True)
   \<and> map (\<lambda>r. (billid r, isPaid r, paidInFull r))
         (bills (snd (updatebill one_bill_db (units ''1'') readme_update)))
       = [(1, Some True, Some False)]
   \<and> spec_deriveStatus (amountDue readme_update) (amountPaid readme_update) = (True, False)
   \<and> addbill empty_db form_add = (Json201 (row 1 form_add), one_bill_db)
   \<and> row 1 form_add \<in> set (bills one_bill_db)
   \<and> isPaid (row 1 form_add) = isPaid form_add
   \<and> paidInFull (row 1 form_add) = paidInFull form_add"
proof -
  have h: "parseInt (units ''1'') = Some 1" "int4 1" "gt0 (amountPaid readme_pay)"
    "gt0 (amountPaid readme_update)"
    by (simp_all add: parseInt_1 int4_def gt0_def readme_pay_def readme_update_def)
  have s: "spec_deriveStatus (amountDue readme_pay) (amountPaid readme_pay) = (True, True)"
    "spec_deriveStatus (amountDue readme_update) (amountPaid readme_update) = (True, False)"
    by (simp_all add: spec_deriveStatus_def readme_pay_def readme_update_def)
  have p: "map (\<lambda>r. (billid r, isPaid r, paidInFull r))
      (bills (snd (paybill one_bill_db (units ''1'') readme_pay))) = [(1, Some True, Some True)]"
    by (simp add: pay_in_full paid_bill_db_def pay_row_def row_def)
  have u: "map (\<lambda>r. (billid r, isPaid r, paidInFull r))
      (bills (snd (updatebill one_bill_db (units ''1'') readme_update))) = [(1, Some True, Some False)]"
    by (simp add: update_partial update_row_def row_def)
  note a = supplied_flags [where d = one_bill_db and billId = "units ''1''" and body = readme_update
      and x = "Some False" and y = "Some True" and n = 1]
  note b = supplied_flags [where d = one_bill_db and billId = "units ''1''" and body = readme_pay
      and x = "Some False" and y = "Some False" and n = 1]
  note c = supplied_flags [where d = empty_db and body = form_add and r' = "row 1 form_add"
      and d' = one_bill_db]
  from a have 1: "updatebill one_bill_db (units ''1'') (readme_update\<lparr>isPaid := Some False, paidInFull := Some True\<rparr>)
     = updatebill one_bill_db (units ''1'') readme_update"
    by blast
  from b have 2: "paybill one_bill_db (units ''1'') (readme_pay\<lparr>isPaid := Some False, paidInFull := Some False\<rparr>)
     = paybill one_bill_db (units ''1'') readme_pay"
    by blast
  from c add_on_empty have 3: "row 1 form_add \<in> set (bills one_bill_db)
     \<and> isPaid (row 1 form_add) = isPaid form_add
     \<and> paidInFull (row 1 form_add) = paidInFull form_add"
    by blast
  from 1 2 3 h s p u add_on_empty show ?thesis
    by blast
qed

section \<open>Updating with nothing paid\<close>

text \<open>
  C2. An \<^verbatim>\<open>updateBill\<close> request with \<^verbatim>\<open>amountPaid <= 0\<close> should store
  \<^verbatim>\<open>isPaid = false\<close> and \<^verbatim>\<open>paidInFull = false\<close>, also when \<^verbatim>\<open>amountPaid = amountDue
  = 0\<close>. The handler tests \<^verbatim>\<open>amountPaid == amountDue\<close> without the \<^verbatim>\<open>amountPaid > 0\<close>
  that \<^verbatim>\<open>/paybill\<close> adds to the same test: on the stored bill 1, an update with
  \<^verbatim>\<open>amountPaid = 0\<close> and \<^verbatim>\<open>amountDue = 0\<close> stores both flags as true, where the rule
  gives false and false.
\<close>

theorem updatebill_zero_amounts:
  "updatebill one_bill_db (units ''1'') (form_add\<lparr>amountDue := Some 0\<rparr>)
     = (UpdateConfirmation (Some 1),
        \<lparr>bills = [row 1 (form_add\<lparr>amountDue := Some 0, isPaid := Some True, paidInFull := Some True\<rparr>)],
         bills_billid_seq = 2\<rparr>)
   \<and> amountPaid (form_add\<lparr>amountDue := Some 0\<rparr>) = Some 0
   \<and> spec_deriveStatus (amountDue (form_add\<lparr>amountDue := Some 0\<rparr>))
        (amountPaid (form_add\<lparr>amountDue := Some 0\<rparr>)) = (False, False)"
  by (simp add: updatebill_def parseInt_1 updatebill_sql_def form_add_def loose_eq_def
      query_update_def int_param_def int4_def one_bill_db_def update_where_def row_def
      update_row_def spec_deriveStatus_def)

section \<open>Adding a bill with a field missing\<close>

text \<open>
  C3, as the claim states it, fails: an \<^verbatim>\<open>addBill\<close> request whose \<^verbatim>\<open>from\<close> is empty and
  whose \<^verbatim>\<open>amountDue\<close> is zero is answered with 201 and the record is created.
\<close>

theorem addbill_missing_counterexample:
  "required_missing (as_sent (form_add\<lparr>billfrom := Some [], amountDue := Some 0\<rparr>))
   \<and> addbill_sent empty_db (as_sent (form_add\<lparr>billfrom := Some [], amountDue := Some 0\<rparr>))
     = (Json201 (row 1 (form_add\<lparr>billfrom := Some [], amountDue := Some 0\<rparr>)),
        \<lparr>bills = [row 1 (form_add\<lparr>billfrom := Some [], amountDue := Some 0\<rparr>)],
         bills_billid_seq = 2\<rparr>)"
proof -
  have "required_missing (as_sent (form_add\<lparr>billfrom := Some [], amountDue := Some 0\<rparr>))"
    by (simp add: required_missing_def as_sent_def)
  moreover have "addbill_sent empty_db (as_sent (form_add\<lparr>billfrom := Some [], amountDue := Some 0\<rparr>))
     = (Json201 (row 1 (form_add\<lparr>billfrom := Some [], amountDue := Some 0\<rparr>)),
        \<lparr>bills = [row 1 (form_add\<lparr>billfrom := Some [], amountDue := Some 0\<rparr>)],
         bills_billid_seq = 2\<rparr>)"
    by (simp add: addbill_sent_typed addbill_def insert_returning_def nextval_def empty_db_def)
  ultimately show ?thesis
    by simp
qed

text \<open>
  C3, amended. The server's \<^verbatim>\<open>addBill\<close> checks none of the four fields; every request
  in which \<^verbatim>\<open>from\<close>, \<^verbatim>\<open>type\<close>, \<^verbatim>\<open>amountDue\<close> or \<^verbatim>\<open>dueDate\<close> is empty, zero or absent
  goes to the store. If \<^verbatim>\<open>amountDue\<close> is the empty text the store refuses it as a
  number, and if \<^verbatim>\<open>dueDate\<close> is the empty text the store refuses it as a date: the
  answer is the store's error and no record is created. If no amount and no date of the
  body is an empty text, then whenever the store accepts the insert (the sequence is not
  used up and the new id is free) the answer is 201 with the created record, which holds
  the fields as the request gave them, the absent ones as \<^verbatim>\<open>NULL\<close>.
\<close>

theorem addbill_does_not_validate:
  assumes "required_missing body"
  shows "(amountDue body = EmptyText \<longrightarrow> addbill_sent d body = (JsonErr InvalidNumber, d))
       \<and> (amountDue body \<noteq> EmptyText \<and> dueDate body = EmptyText \<longrightarrow>
            addbill_sent d body = (JsonErr InvalidDate, d))
       \<and> (amountDue body \<noteq> EmptyText \<and> dueDate body \<noteq> EmptyText
            \<and> amountPaid body \<noteq> EmptyText \<and> datePaid body \<noteq> EmptyText
            \<and> bills_billid_seq d \<le> 2000000
            \<and> int (bills_billid_seq d) \<notin> billid ` set (bills d) \<longrightarrow>
            (\<exists>b. as_sent b = body
               \<and> addbill_sent d body
                 = (Json201 (row (int (bills_billid_seq d)) b),
                    d\<lparr>bills := bills d @ [row (int (bills_billid_seq d)) b],
                      bills_billid_seq := bills_billid_seq d + 1\<rparr>)))"
proof -
  have "\<exists>b. as_sent b = body
          \<and> addbill_sent d body
            = (Json201 (row (int (bills_billid_seq d)) b),
               d\<lparr>bills := bills d @ [row (int (bills_billid_seq d)) b],
                 bills_billid_seq := bills_billid_seq d + 1\<rparr>)"
    if "amountDue body \<noteq> EmptyText" "dueDate body \<noteq> EmptyText"
      "amountPaid body \<noteq> EmptyText" "datePaid body \<noteq> EmptyText"
      "bills_billid_seq d \<le> 2000000" "int (bills_billid_seq d) \<notin> billid ` set (bills d)"
  proof -
    from that(1-4) obtain b where b: "as_sent b = body"
      using as_sent_onto by blast
    then have "addbill_sent d body = addbill d b"
      by (simp add: addbill_sent_typed [symmetric])
    with that(5,6) b show ?thesis
      by (auto simp: addbill_accepted)
  qed
  then show ?thesis
    by (simp add: addbill_sent_empty_number addbill_sent_empty_date)
qed

text \<open>The form's initial state has an empty \<^verbatim>\<open>dueDate\<close>: the store refuses it and
  keeps its one bill. The README's body without \<^verbatim>\<open>amountDue\<close> is stored.\<close>

theorem addbill_does_not_validate_witness:
  "required_missing form_initial
   \<and> amountDue form_initial \<noteq> EmptyText \<and> dueDate form_initial = EmptyText
   \<and> addbill_sent one_bill_db form_initial = (JsonErr InvalidDate, one_bill_db)
   \<and> required_missing (as_sent (readme_add\<lparr>amountDue := None\<rparr>))
   \<and> bills_billid_seq one_bill_db \<le> 2000000
   \<and> int (bills_billid_seq one_bill_db) \<notin> billid ` set (bills one_bill_db)
   \<and> addbill_sent one_bill_db (as_sent (readme_add\<lparr>amountDue := None\<rparr>))
     = (Json201 (row 2 (readme_add\<lparr>amountDue := None\<rparr>)),
        \<lparr>bills = [row 1 form_add, row 2 (readme_add\<lparr>amountDue := None\<rparr>)],
         bills_billid_seq = 3\<rparr>)"
proof -
  have i: "required_missing form_initial" "amountDue form_initial \<noteq> EmptyText"
    "dueDate form_initial = EmptyText"
    by (simp_all add: required_missing_def form_initial_def)
  from addbill_does_not_validate [OF i(1), of one_bill_db] i(2,3)
  have 1: "addbill_sent one_bill_db form_initial = (JsonErr InvalidDate, one_bill_db)"
    by blast
  let ?b = "readme_add\<lparr>amountDue := None\<rparr>"
  have h: "required_missing (as_sent ?b)"
    "bills_billid_seq one_bill_db \<le> 2000000"
    "int (bills_billid_seq one_bill_db) \<notin> billid ` set (bills one_bill_db)"
    by (simp_all add: required_missing_def as_sent_def sent_of_def readme_add_def
        one_bill_db_def row_def)
  have ne: "amountDue (as_sent ?b) \<noteq> EmptyText" "dueDate (as_sent ?b) \<noteq> EmptyText"
    "amountPaid (as_sent ?b) \<noteq> EmptyText" "datePaid (as_sent ?b) \<noteq> EmptyText"
    by (simp_all add: as_sent_def sent_of_def readme_add_def)
  from addbill_does_not_validate [OF h(1), of one_bill_db] ne h(2,3)
  obtain b where b: "as_sent b = as_sent ?b"
    and r: "addbill_sent one_bill_db (as_sent ?b)
      = (Json201 (row (int (bills_billid_seq one_bill_db)) b),
         one_bill_db\<lparr>bills := bills one_bill_db @ [row (int (bills_billid_seq one_bill_db)) b],
           bills_billid_seq := bills_billid_seq one_bill_db + 1\<rparr>)"
    by blast
  from b have "b = ?b"
    by (rule as_sent_inject)
  with r have 2: "addbill_sent one_bill_db (as_sent ?b)
     = (Json201 (row 2 ?b), \<lparr>bills = [row 1 form_add, row 2 ?b], bills_billid_seq = 3\<rparr>)"
    by (simp add: one_bill_db_def)
  from i 1 h 2 show ?thesis
    by simp
qed

section \<open>Paid in full implies paid\<close>

text \<open>
  C5, as the claim states it, fails: from the empty store, one \<^verbatim>\<open>addBill\<close> whose body
  has \<^verbatim>\<open>paidInFull = true\<close> and \<^verbatim>\<open>isPaid = false\<close> stores a record with
  \<^verbatim>\<open>paidInFull = true\<close> and \<^verbatim>\<open>isPaid = false\<close>.
\<close>

theorem paid_in_full_counterexample:
  "bills (serve_all empty_db [AddBill (form_add\<lparr>paidInFull := Some True\<rparr>)])
     = [row 1 (form_add\<lparr>paidInFull := Some True\<rparr>)]
   \<and> paidInFull (row 1 (form_add\<lparr>paidInFull := Some True\<rparr>)) = Some True
   \<and> isPaid (row 1 (form_add\<lparr>paidInFull := Some True\<rparr>)) = Some False"
  by (simp add: serve_all_def addbill_def insert_returning_def nextval_def empty_db_def row_def
      form_add_def)

text \<open>
  C5, amended. \<^verbatim>\<open>paidInFull = true\<close> implies \<^verbatim>\<open>isPaid = true\<close> for every stored record
  reachable from the empty store by any sequence of add, pay, update and delete
  operations in which the body of every add request satisfies the implication itself (as
  the add form's body does, which sends both flags false).
\<close>

theorem paid_in_full_implies_paid:
  assumes "\<forall>body. AddBill body \<in> set reqs \<longrightarrow> flags_ok body"
  shows "\<forall>r \<in> set (bills (serve_all empty_db reqs)).
           paidInFull r = Some True \<longrightarrow> isPaid r = Some True"
proof -
  have "\<forall>r \<in> set (bills empty_db). flags_ok r"
    by (simp add: empty_db_def)
  from serve_all_keeps [OF this assms] show ?thesis
    by (simp add: flags_ok_def)
qed


text \<open>The add form's request and the README's payment in full: the stored bill is paid
  in full and paid.\<close>

theorem paid_in_full_implies_paid_witness:
  "flags_ok form_add
   \<and> serve_all empty_db [AddBill form_add, PayBill (units ''1'') readme_pay] = paid_bill_db
   \<and> bills paid_bill_db \<noteq> []
   \<and> list_all (\<lambda>r. paidInFull r = Some True \<and> isPaid r = Some True) (bills paid_bill_db)"
proof -
  have ok: "flags_ok form_add"
    by (simp add: flags_ok_def form_add_def)
  then have "\<forall>body. AddBill body \<in> set [AddBill form_add, PayBill (units ''1'') readme_pay]
      \<longrightarrow> flags_ok body"
    by simp
  from paid_in_full_implies_paid [OF this]
  have "\<forall>r \<in> set (bills paid_bill_db). paidInFull r = Some True \<longrightarrow> isPaid r = Some True"
    by (simp only: add_then_pay)
  moreover have "\<forall>r \<in> set (bills paid_bill_db). paidInFull r = Some True"
    by (simp add: paid_bill_db_def pay_row_def)
  ultimately have "list_all (\<lambda>r. paidInFull r = Some True \<and> isPaid r = Some True)
      (bills paid_bill_db)"
    by (simp add: list_all_iff)
  moreover have "bills paid_bill_db \<noteq> []"
    by (simp add: paid_bill_db_def)
  ultimately show ?thesis
    using ok add_then_pay by simp
qed

section \<open>The record a new bill starts with\<close>

text \<open>
  C6, as the claim states it, fails: an \<^verbatim>\<open>addBill\<close> whose body carries payment fields
  succeeds, and the record returned by it and by a following \<^verbatim>\<open>getBill\<close> has the
  \<^verbatim>\<open>amountPaid\<close>, \<^verbatim>\<open>datePaid\<close> and \<^verbatim>\<open>paidBy\<close> of the body, and no value for the two
  flags the body does not send.
\<close>

theorem addbill_defaults_counterexample:
  "addbill empty_db readme_update
     = (Json201 (row 1 readme_update), \<lparr>bills = [row 1 readme_update], bills_billid_seq = 2\<rparr>)
   \<and> get_bill \<lparr>bills = [row 1 readme_update], bills_billid_seq = 2\<rparr> (units ''1'')
     = Json200_row (Some (row 1 readme_update))
   \<and> amountPaid (row 1 readme_update) = Some (1557 / 100)
   \<and> isPaid (row 1 readme_update) = None
   \<and> paidInFull (row 1 readme_update) = None
   \<and> datePaid (row 1 readme_update) = Some (Date 2025 8 10)
   \<and> paidBy (row 1 readme_update) = Some ''Visa''"
  by (simp add: addbill_def insert_returning_def nextval_def empty_db_def get_bill_def Number_1
      select_where_def num_param_def int_param_def int4_def row_def readme_update_def)

text \<open>
  C6, amended. For every successful \<^verbatim>\<open>addBill\<close> the persisted record, as returned by
  \<^verbatim>\<open>addBill\<close> and by a following \<^verbatim>\<open>getBill\<close> on its id, holds the nine fields of the
  request body as they were supplied; it has \<^verbatim>\<open>amountPaid = 0\<close>, \<^verbatim>\<open>isPaid = false\<close>,
  \<^verbatim>\<open>paidInFull = false\<close>, the sentinel \<^verbatim>\<open>datePaid\<close> 9999-01-01 and an empty
  \<^verbatim>\<open>paidBy\<close> exactly when the body supplies these values, as the add form's body does.
\<close>

theorem addbill_persists_request:
  assumes "addbill d body = (Json201 r, d')" and "js_Number billId = Some (of_int (billid r))"
  shows "r = row (billid r) body
       \<and> get_bill d' billId = Json200_row (Some r)
       \<and> (unpaid_defaults r \<longleftrightarrow> unpaid_defaults body)"
proof -
  from addbill_created(1) [OF assms(1)] have r: "r = row (int (bills_billid_seq d)) body" .
  then have "billid r = int (bills_billid_seq d)"
    by (simp add: row_def)
  with r have "r = row (billid r) body"
    by simp
  moreover from r have "unpaid_defaults r \<longleftrightarrow> unpaid_defaults body"
    by (simp add: unpaid_defaults_def row_def)
  ultimately show ?thesis
    using get_bill_created [OF assms] by simp
qed

theorem addbill_persists_request_witness:
  "addbill empty_db form_add = (Json201 (row 1 form_add), one_bill_db)
   \<and> js_Number (units ''1'') = Some (of_int (billid (row 1 form_add)))
   \<and> get_bill one_bill_db (units ''1'') = Json200_row (Some (row 1 form_add))
   \<and> unpaid_defaults form_add
   \<and> unpaid_defaults (row 1 form_add)"
proof -
  have n: "js_Number (units ''1'') = Some (of_int (billid (row 1 form_add)))"
    by (simp add: Number_1 row_def)
  have u: "unpaid_defaults form_add"
    by (simp add: unpaid_defaults_def form_add_def)
  from addbill_persists_request [OF add_on_empty n] u add_on_empty n show ?thesis
    by simp
qed

end
